theory Spec2Isabelle
  imports Main
begin

section \<open>The activity-log dashboard page (src/apps/dashboard/routes/activity.tsx)\<close>

text \<open>
  The page is a React function component. Its reviewable logic is a handful of pure
  functions (\<open>getActivityView\<close>, \<open>getRowId\<close>, the memoised \<open>users\<close> and
  \<open>activityParams\<close>, the column list with its \<open>getActions\<close>) and two pieces of state
  handling (\<open>onViewChange\<close> and the effect that writes the view mode back into the URL).
  Each is embedded below under the name the source gives it.
\<close>

subsection \<open>View modes and the URL parameter\<close>

text \<open>
  \<^verbatim>\<open>const enum ActivityView { All, User, System }\<close>. The constructors carry the enum's
  name as a prefix, since \<open>All\<close> is already the universal quantifier of HOL.
\<close>

datatype ActivityView = ActivityView_All | ActivityView_User | ActivityView_System

text \<open>\<^verbatim>\<open>const DEFAULT_PAGE_SIZE = 25; const VIEW_PARAM = 'useractivity';\<close>\<close>

definition DEFAULT_PAGE_SIZE :: int where
  "DEFAULT_PAGE_SIZE = 25"

definition VIEW_PARAM :: string where
  "VIEW_PARAM = ''useractivity''"

text \<open>
  Lower-casing of one character, as \<^verbatim>\<open>String.prototype.toLowerCase\<close> does it on the
  ASCII letters; every other character is kept.
\<close>

definition toLowerCase :: "char \<Rightarrow> char" where
  "toLowerCase c =
     (case map_of (zip ''ABCDEFGHIJKLMNOPQRSTUVWXYZ'' ''abcdefghijklmnopqrstuvwxyz'') c of
        Some d \<Rightarrow> d
      | None \<Rightarrow> c)"

text \<open>
  Modelled from the spec: \<^verbatim>\<open>toBoolean\<close> is imported from \<^verbatim>\<open>utils/string\<close>, a module of
  this repository that is not among the sources at hand. The specification describes it
  as a permissive string-to-boolean coercion: case-insensitively, \<^verbatim>\<open>"true"\<close>, \<^verbatim>\<open>"1"\<close> and
  \<^verbatim>\<open>"yes"\<close> give true, and every other string gives false.
\<close>

definition toBoolean :: "string \<Rightarrow> bool" where
  "toBoolean v = (map toLowerCase v \<in> set [''true'', ''1'', ''yes''])"

text \<open>
  \<^verbatim>\<open>
  const getActivityView = (param: string | null) => {
      if (param === null) return ActivityView.All;
      if (toBoolean(param)) return ActivityView.User;
      return ActivityView.System;
  };
  \<close>
  The argument is what \<^verbatim>\<open>URLSearchParams.get\<close> returns: \<open>None\<close> stands for \<^verbatim>\<open>null\<close>.
\<close>

definition getActivityView :: "string option \<Rightarrow> ActivityView" where
  "getActivityView param =
     (case param of
        None \<Rightarrow> ActivityView_All
      | Some s \<Rightarrow> if toBoolean s then ActivityView_User else ActivityView_System)"

text \<open>
  Equality of two strings up to the case of their ASCII letters, character by character.
  It states the decoding rule without reference to how \<open>toBoolean\<close> computes.
\<close>

definition equalsIgnoreCase :: "string \<Rightarrow> string \<Rightarrow> bool" where
  "equalsIgnoreCase s t = list_all2 (\<lambda>a b. toLowerCase a = toLowerCase b) s t"

subsection \<open>The query string\<close>

text \<open>
  \<^verbatim>\<open>useSearchParams\<close> hands the component a \<^verbatim>\<open>URLSearchParams\<close> object: an ordered list
  of name-value pairs in which a name may occur several times. The three methods the page
  calls are modelled as the URL standard defines them: \<^verbatim>\<open>get\<close> returns the value of the
  first pair with the name, or \<^verbatim>\<open>null\<close>; \<^verbatim>\<open>delete\<close> removes every pair with the name;
  \<^verbatim>\<open>set\<close> overwrites the value of the first pair with the name and removes the later
  ones, or appends a new pair when there is none. \<^verbatim>\<open>getAll\<close> is not called by the page;
  it is used to state what the page leaves alone.
\<close>

type_synonym URLSearchParams = "(string \<times> string) list"

definition searchParams_get :: "URLSearchParams \<Rightarrow> string \<Rightarrow> string option" where
  "searchParams_get ps name = map_option snd (find (\<lambda>p. fst p = name) ps)"

definition searchParams_getAll :: "URLSearchParams \<Rightarrow> string \<Rightarrow> string list" where
  "searchParams_getAll ps name = map snd (filter (\<lambda>p. fst p = name) ps)"

definition searchParams_delete :: "URLSearchParams \<Rightarrow> string \<Rightarrow> URLSearchParams" where
  "searchParams_delete ps name = filter (\<lambda>p. fst p \<noteq> name) ps"

fun searchParams_set :: "URLSearchParams \<Rightarrow> string \<Rightarrow> string \<Rightarrow> URLSearchParams" where
  "searchParams_set [] name v = [(name, v)]"
| "searchParams_set (p # ps) name v =
     (if fst p = name then (name, v) # searchParams_delete ps name
      else p # searchParams_set ps name v)"

text \<open>A boolean inside a template literal: \<^verbatim>\<open>`${b}`\<close> is \<^verbatim>\<open>"true"\<close> or \<^verbatim>\<open>"false"\<close>.\<close>

definition string_of_boolean :: "bool \<Rightarrow> string" where
  "string_of_boolean b = (if b then ''true'' else ''false'')"

subsection \<open>Component state\<close>

text \<open>
  \<^verbatim>\<open>
  const [ searchParams, setSearchParams ] = useSearchParams();
  const [ activityView, setActivityView ] = useState(
      getActivityView(searchParams.get(VIEW_PARAM)));
  const [ paginationModel, setPaginationModel ] = useState({
      page: 0,
      pageSize: DEFAULT_PAGE_SIZE
  });
  \<close>
  The three pieces of state are the fields of a record. \<open>page\<close> and \<open>pageSize\<close> are
  JavaScript numbers; the grid supplies integers, and the model ranges over the integers
  (on which the product taken below is exact as long as it stays a safe integer). A fourth
  field logs every call of \<^verbatim>\<open>setSearchParams\<close> with its argument, oldest first: a call
  navigates to the URL with that query string, so the log counts the URL mutations.
\<close>

record PaginationModel =
  page :: int
  pageSize :: int

record Activity =
  searchParams :: URLSearchParams
  activityView :: ActivityView
  paginationModel :: PaginationModel
  setSearchParams_calls :: "URLSearchParams list"

definition Activity_mount :: "URLSearchParams \<Rightarrow> Activity" where
  "Activity_mount sp =
     \<lparr>searchParams = sp,
      activityView = getActivityView (searchParams_get sp VIEW_PARAM),
      paginationModel = \<lparr>page = 0, pageSize = DEFAULT_PAGE_SIZE\<rparr>,
      setSearchParams_calls = []\<rparr>"

text \<open>
  \<^verbatim>\<open>
  const onViewChange = useCallback((_e, newView: ActivityView | null) => {
      if (newView !== null) {
          setActivityView(newView);
      }
  }, []);
  \<close>
\<close>

definition onViewChange :: "ActivityView option \<Rightarrow> Activity \<Rightarrow> Activity" where
  "onViewChange newView st =
     (case newView of
        None \<Rightarrow> st
      | Some v \<Rightarrow> st\<lparr>activityView := v\<rparr>)"

text \<open>\<^verbatim>\<open>onPaginationModelChange={setPaginationModel}\<close>: the grid's page changes.\<close>

definition setPaginationModel :: "PaginationModel \<Rightarrow> Activity \<Rightarrow> Activity" where
  "setPaginationModel pm st = st\<lparr>paginationModel := pm\<rparr>"

text \<open>
  The effect that writes the view mode into the URL:
  \<^verbatim>\<open>
  useEffect(() => {
      const currentViewParam = getActivityView(searchParams.get(VIEW_PARAM));
      if (currentViewParam !== activityView) {
          if (activityView === ActivityView.All) {
              searchParams.delete(VIEW_PARAM);
          } else {
              searchParams.set(VIEW_PARAM, `${activityView === ActivityView.User}`);
          }
          setSearchParams(searchParams);
      }
  }, [ activityView, searchParams, setSearchParams ]);
  \<close>
  The inner conditional, which encodes a view mode into the query string, is
  \<open>encodeViewParam\<close>; the whole body is \<open>syncViewParam\<close>.
\<close>

definition encodeViewParam :: "ActivityView \<Rightarrow> URLSearchParams \<Rightarrow> URLSearchParams" where
  "encodeViewParam view sp =
     (if view = ActivityView_All then searchParams_delete sp VIEW_PARAM
      else searchParams_set sp VIEW_PARAM (string_of_boolean (view = ActivityView_User)))"

definition syncViewParam :: "Activity \<Rightarrow> Activity" where
  "syncViewParam st =
     (let currentViewParam = getActivityView (searchParams_get (searchParams st) VIEW_PARAM)
      in if currentViewParam \<noteq> activityView st
         then (let sp = encodeViewParam (activityView st) (searchParams st)
               in st\<lparr>searchParams := sp,
                     setSearchParams_calls := setSearchParams_calls st @ [sp]\<rparr>)
         else st)"

subsection \<open>Fetch parameters\<close>

text \<open>
  \<^verbatim>\<open>
  const activityParams = useMemo(() => ({
      startIndex: paginationModel.page * paginationModel.pageSize,
      limit: paginationModel.pageSize,
      hasUserId: activityView !== ActivityView.All ? activityView === ActivityView.User : undefined
  }), [activityView, paginationModel.page, paginationModel.pageSize]);
  \<close>
  \<open>None\<close> stands for \<^verbatim>\<open>undefined\<close>.
\<close>

record ActivityParams =
  startIndex :: int
  limit :: int
  hasUserId :: "bool option"

definition activityParams :: "ActivityView \<Rightarrow> PaginationModel \<Rightarrow> ActivityParams" where
  "activityParams view pm =
     \<lparr>startIndex = page pm * pageSize pm,
      limit = pageSize pm,
      hasUserId = (if view \<noteq> ActivityView_All then Some (view = ActivityView_User) else None)\<rparr>"

subsection \<open>Log entries and users\<close>

text \<open>
  \<^verbatim>\<open>ActivityLogEntry\<close> and \<^verbatim>\<open>UserDto\<close> are types of the server's generated client. Every
  property is optional there; the records keep the properties the page reads, each as an
  \<open>option\<close> with \<open>None\<close> for \<^verbatim>\<open>undefined\<close> or \<^verbatim>\<open>null\<close>. The field names carry the type as a
  prefix because both types have an \<^verbatim>\<open>Id\<close> and a \<^verbatim>\<open>Name\<close>.
\<close>

record UserDto =
  user_Id :: "string option"
  user_Name :: "string option"

record ActivityLogEntry =
  entry_Id :: "int option"
  entry_Name :: "string option"
  entry_Overview :: "string option"
  entry_ShortOverview :: "string option"
  entry_Type :: "string option"
  entry_ItemId :: "string option"
  entry_Date :: "string option"
  entry_UserId :: "string option"
  entry_Severity :: "string option"

text \<open>\<^verbatim>\<open>const getRowId = (row: ActivityLogEntry) => row.Id ?? -1;\<close>\<close>

definition getRowId :: "ActivityLogEntry \<Rightarrow> int" where
  "getRowId row = (case entry_Id row of None \<Rightarrow> - 1 | Some i \<Rightarrow> i)"

text \<open>
  The truth value JavaScript gives an optional string in a condition (\<^verbatim>\<open>if (row.ItemId)\<close>,
  \<^verbatim>\<open>!userId\<close>): \<^verbatim>\<open>undefined\<close>, \<^verbatim>\<open>null\<close> and the empty string are false, every other
  string is true.
\<close>

definition truthy :: "string option \<Rightarrow> bool" where
  "truthy v = (case v of None \<Rightarrow> False | Some s \<Rightarrow> s \<noteq> [])"

text \<open>
  The string JavaScript makes of an optional string used as a property key
  (\<^verbatim>\<open>users[row.UserId]\<close>) or inside a template literal: an absent value reads
  \<^verbatim>\<open>"undefined"\<close>.
\<close>

definition js_ToString :: "string option \<Rightarrow> string" where
  "js_ToString v = (case v of None \<Rightarrow> ''undefined'' | Some s \<Rightarrow> s)"

text \<open>
  \<^verbatim>\<open>
  const users: UsersRecords = useMemo(() => {
      if (!usersData) return {};
      return usersData.reduce<UsersRecords>((acc, user) => {
          const userId = user.Id;
          if (!userId) return acc;
          return { ...acc, [userId]: user };
      }, {});
  }, [usersData]);
  \<close>
  \<open>usersData\<close> is \<open>None\<close> while the user list has not arrived. The object is a map from
  its own property names to users; \<open>users_step\<close> is the callback of \<^verbatim>\<open>reduce\<close>.
\<close>

definition users_step :: "(string \<rightharpoonup> UserDto) \<Rightarrow> UserDto \<Rightarrow> (string \<rightharpoonup> UserDto)" where
  "users_step acc user =
     (let userId = user_Id user
      in if \<not> truthy userId then acc
         else (case userId of None \<Rightarrow> acc | Some k \<Rightarrow> acc(k \<mapsto> user)))"

definition users :: "UserDto list option \<Rightarrow> (string \<rightharpoonup> UserDto)" where
  "users usersData =
     (case usersData of
        None \<Rightarrow> Map.empty
      | Some us \<Rightarrow> foldl users_step Map.empty us)"

subsection \<open>Columns\<close>

text \<open>
  A column definition, with the properties that are plain data. \<open>headerName\<close> holds the
  key handed to \<^verbatim>\<open>globalize.translate\<close>. The functions a column carries
  (\<^verbatim>\<open>valueGetter\<close>, \<^verbatim>\<open>renderCell\<close>, \<^verbatim>\<open>getActions\<close>) are separate definitions below.
\<close>

record GridColDef =
  field :: string
  headerName :: "string option"
  width :: nat
  col_type :: "string option"

text \<open>
  \<^verbatim>\<open>const userColDef: GridColDef[] = activityView !== ActivityView.System ? [ {field: 'User', ...} ] : [];\<close>
\<close>

definition userColDef :: "ActivityView \<Rightarrow> GridColDef list" where
  "userColDef view =
     (if view \<noteq> ActivityView_System
      then [\<lparr>field = ''User'', headerName = Some ''LabelUser'', width = 60, col_type = None\<rparr>]
      else [])"

text \<open>
  \<^verbatim>\<open>const columns: GridColDef[] = [ Date, Time, Severity, ...userColDef, Name, Overview, Type, actions ];\<close>
\<close>

definition columns :: "ActivityView \<Rightarrow> GridColDef list" where
  "columns view =
     [\<lparr>field = ''Date'', headerName = Some ''LabelDate'', width = 90, col_type = Some ''date''\<rparr>,
      \<lparr>field = ''Time'', headerName = Some ''LabelTime'', width = 100, col_type = Some ''dateTime''\<rparr>,
      \<lparr>field = ''Severity'', headerName = Some ''LabelLevel'', width = 110, col_type = None\<rparr>]
     @ userColDef view @
     [\<lparr>field = ''Name'', headerName = Some ''LabelName'', width = 300, col_type = None\<rparr>,
      \<lparr>field = ''Overview'', headerName = Some ''LabelOverview'', width = 200, col_type = None\<rparr>,
      \<lparr>field = ''Type'', headerName = Some ''LabelType'', width = 180, col_type = None\<rparr>,
      \<lparr>field = ''actions'', headerName = None, width = 50, col_type = Some ''actions''\<rparr>]"

text \<open>
  The user column's \<^verbatim>\<open>valueGetter: ( value, row ) => users[row.UserId]?.Name\<close>. A property
  the object only inherits (\<^verbatim>\<open>constructor\<close>, \<^verbatim>\<open>toString\<close>, ...) is not a user and has no
  \<^verbatim>\<open>Name\<close>, so the value is decided by the object's own properties.
\<close>

definition User_valueGetter :: "(string \<rightharpoonup> UserDto) \<Rightarrow> ActivityLogEntry \<Rightarrow> string option" where
  "User_valueGetter us row =
     (case us (js_ToString (entry_UserId row)) of
        None \<Rightarrow> None
      | Some u \<Rightarrow> user_Name u)"

text \<open>
  The user column's \<^verbatim>\<open>renderCell\<close>: a button with
  \<^verbatim>\<open>title={users[row.UserId]?.Name ?? undefined}\<close> that links
  \<^verbatim>\<open>to={`/dashboard/users/profile?userId=${row.UserId}`}\<close>. Its child, the avatar, is
  handed \<^verbatim>\<open>users[row.UserId]\<close> as it is; the component that draws it is not part of these
  sources and is left out of the record.
\<close>

record UserCell =
  cell_title :: "string option"
  cell_to :: string

definition User_renderCell :: "(string \<rightharpoonup> UserDto) \<Rightarrow> ActivityLogEntry \<Rightarrow> UserCell" where
  "User_renderCell us row =
     \<lparr>cell_title = (case us (js_ToString (entry_UserId row)) of
                      None \<Rightarrow> None
                    | Some u \<Rightarrow> user_Name u),
      cell_to = ''/dashboard/users/profile?userId='' @ js_ToString (entry_UserId row)\<rparr>"

text \<open>
  The actions column:
  \<^verbatim>\<open>
  getActions: ({ row }) => {
      const actions = [];
      if (row.ItemId) {
          actions.push(
              <GridActionsCellLink size='large' icon={<PermMedia />}
                  label={globalize.translate('LabelMediaDetails')}
                  title={globalize.translate('LabelMediaDetails')}
                  to={`/details?id=${row.ItemId}`} />
          );
      }
      return actions;
  }
  \<close>
\<close>

record GridActionsCellLink =
  link_label :: string
  link_title :: string
  link_to :: string

definition getActions :: "ActivityLogEntry \<Rightarrow> GridActionsCellLink list" where
  "getActions row =
     (let actions = []
      in if truthy (entry_ItemId row)
         then actions @
              [\<lparr>link_label = ''LabelMediaDetails'', link_title = ''LabelMediaDetails'',
                link_to = ''/details?id='' @ js_ToString (entry_ItemId row)\<rparr>]
         else actions)"

section \<open>Properties\<close>

subsection \<open>Decoding the URL parameter\<close>

lemma toLowerCase_literals:
  "map toLowerCase ''true'' = ''true''"
  "map toLowerCase ''1'' = ''1''"
  "map toLowerCase ''yes'' = ''yes''"
  "map toLowerCase ''false'' = ''false''"
  by (simp_all add: toLowerCase_def)

lemma equalsIgnoreCase_map:
  "equalsIgnoreCase s t \<longleftrightarrow> map toLowerCase s = map toLowerCase t"
  unfolding equalsIgnoreCase_def
  by (induction s arbitrary: t) (auto simp: list_all2_Cons1)

lemma toBoolean_iff:
  "toBoolean s \<longleftrightarrow>
     equalsIgnoreCase s ''true'' \<or> equalsIgnoreCase s ''1'' \<or> equalsIgnoreCase s ''yes''"
  by (simp only: equalsIgnoreCase_map toLowerCase_literals toBoolean_def) auto

lemma toBoolean_true [simp]: "toBoolean ''true''"
  by (simp only: toBoolean_def toLowerCase_literals) simp

lemma toBoolean_false [simp]: "\<not> toBoolean ''false''"
  by (simp only: toBoolean_def toLowerCase_literals) simp

text \<open>
  C1. The decoder sends an absent parameter to All. A present parameter is never decoded
  to All: it is decoded to User exactly when it equals \<^verbatim>\<open>"true"\<close>, \<^verbatim>\<open>"1"\<close> or \<^verbatim>\<open>"yes"\<close>
  up to letter case, and to System for every other string.
\<close>

theorem getActivityView_decoding:
  "getActivityView None = ActivityView_All \<and>
   (getActivityView (Some s) = ActivityView_User \<longleftrightarrow>
      equalsIgnoreCase s ''true'' \<or> equalsIgnoreCase s ''1'' \<or> equalsIgnoreCase s ''yes'') \<and>
   (getActivityView (Some s) = ActivityView_System \<longleftrightarrow>
      \<not> (equalsIgnoreCase s ''true'' \<or> equalsIgnoreCase s ''1'' \<or> equalsIgnoreCase s ''yes''))"
  by (simp add: getActivityView_def toBoolean_iff)

subsection \<open>The query-string operations\<close>

lemma searchParams_get_delete:
  "searchParams_get (searchParams_delete ps name) name = None"
  by (induction ps) (auto simp: searchParams_get_def searchParams_delete_def)

lemma searchParams_get_set:
  "searchParams_get (searchParams_set ps name v) name = Some v"
  by (induction ps) (auto simp: searchParams_get_def)

lemma searchParams_getAll_delete:
  "searchParams_getAll (searchParams_delete ps name) name = []"
  by (induction ps) (auto simp: searchParams_getAll_def searchParams_delete_def)

lemma searchParams_getAll_set:
  "searchParams_getAll (searchParams_set ps name v) name = [v]"
proof (induction ps)
  case Nil
  show ?case by (simp add: searchParams_getAll_def)
next
  case (Cons p ps)
  from searchParams_getAll_delete [of ps name] Cons.IH show ?case
    by (simp add: searchParams_getAll_def)
qed

text \<open>What \<^verbatim>\<open>delete\<close> and \<^verbatim>\<open>set\<close> leave alone: every pair under another name, in order.\<close>

lemma others_delete:
  "filter (\<lambda>p. fst p \<noteq> name) (searchParams_delete ps name) = filter (\<lambda>p. fst p \<noteq> name) ps"
  by (simp add: searchParams_delete_def)

lemma others_set:
  "filter (\<lambda>p. fst p \<noteq> name) (searchParams_set ps name v) = filter (\<lambda>p. fst p \<noteq> name) ps"
  by (induction ps) (auto simp: others_delete)

lemma others_encodeViewParam:
  "filter (\<lambda>p. fst p \<noteq> VIEW_PARAM) (encodeViewParam view sp) =
   filter (\<lambda>p. fst p \<noteq> VIEW_PARAM) sp"
  by (simp add: encodeViewParam_def others_delete others_set)

lemma getAll_others:
  "name \<noteq> k \<Longrightarrow>
   searchParams_getAll ps name = searchParams_getAll (filter (\<lambda>p. fst p \<noteq> k) ps) name"
  by (induction ps) (auto simp: searchParams_getAll_def)

lemma get_others:
  "name \<noteq> k \<Longrightarrow>
   searchParams_get ps name = searchParams_get (filter (\<lambda>p. fst p \<noteq> k) ps) name"
  by (induction ps) (auto simp: searchParams_get_def)

subsection \<open>Encoding and decoding the view mode\<close>

lemma decode_encodeViewParam:
  "getActivityView (searchParams_get (encodeViewParam mode sp) VIEW_PARAM) = mode"
  by (cases mode)
     (simp_all add: encodeViewParam_def searchParams_get_delete searchParams_get_set
        getActivityView_def string_of_boolean_def)

text \<open>
  C2. Whatever the query string was, encoding a mode into it and decoding the parameter
  again gives the mode back. Encoding All leaves no \<open>useractivity\<close> pair, and an absent
  parameter decodes to All; encoding User leaves exactly one pair, with the value
  \<^verbatim>\<open>"true"\<close>, and encoding System exactly one with the value \<^verbatim>\<open>"false"\<close>.
\<close>

theorem encodeViewParam_roundtrip:
  "getActivityView (searchParams_get (encodeViewParam mode sp) VIEW_PARAM) = mode \<and>
   searchParams_getAll (encodeViewParam ActivityView_All sp) VIEW_PARAM = [] \<and>
   searchParams_get (encodeViewParam ActivityView_All sp) VIEW_PARAM = None \<and>
   getActivityView None = ActivityView_All \<and>
   searchParams_getAll (encodeViewParam ActivityView_User sp) VIEW_PARAM = [''true''] \<and>
   searchParams_getAll (encodeViewParam ActivityView_System sp) VIEW_PARAM = [''false'']"
proof -
  have "searchParams_getAll (encodeViewParam ActivityView_All sp) VIEW_PARAM = []"
    and "searchParams_get (encodeViewParam ActivityView_All sp) VIEW_PARAM = None"
    by (simp_all add: encodeViewParam_def searchParams_getAll_delete searchParams_get_delete)
  moreover have "searchParams_getAll (encodeViewParam ActivityView_User sp) VIEW_PARAM = [''true'']"
    and "searchParams_getAll (encodeViewParam ActivityView_System sp) VIEW_PARAM = [''false'']"
    by (simp_all add: encodeViewParam_def searchParams_getAll_set string_of_boolean_def)
  moreover have "getActivityView None = ActivityView_All"
    by (simp add: getActivityView_def)
  ultimately show ?thesis
    by (simp add: decode_encodeViewParam)
qed

subsection \<open>Synchronising the URL\<close>

text \<open>
  After the effect has run, the URL decodes to the view mode in memory, so the run that
  React schedules because \<open>searchParams\<close> changed finds nothing to do.
\<close>

lemma syncViewParam_consistent:
  "getActivityView (searchParams_get (searchParams (syncViewParam st)) VIEW_PARAM) =
   activityView st"
  by (simp add: syncViewParam_def Let_def decode_encodeViewParam)

lemma syncViewParam_idem: "syncViewParam (syncViewParam st) = syncViewParam st"
proof -
  have "activityView (syncViewParam st) = activityView st"
    by (simp add: syncViewParam_def Let_def)
  with syncViewParam_consistent [of st] show ?thesis
    by (simp add: syncViewParam_def [of "syncViewParam st"])
qed

text \<open>A call of \<^verbatim>\<open>setSearchParams\<close> made by the effect always changes the query string.\<close>

lemma syncViewParam_changes:
  assumes "getActivityView (searchParams_get (searchParams st) VIEW_PARAM) \<noteq> activityView st"
  shows "searchParams (syncViewParam st) \<noteq> searchParams st"
proof
  assume "searchParams (syncViewParam st) = searchParams st"
  with syncViewParam_consistent [of st]
  have "getActivityView (searchParams_get (searchParams st) VIEW_PARAM) = activityView st"
    by simp
  with assms show False by simp
qed

text \<open>
  C3. One run of the effect calls \<^verbatim>\<open>setSearchParams\<close> once, with the re-encoded query
  string, unless the mode decoded from the current URL is already the mode in memory; then
  it makes no call and leaves the query string as it is. In particular a change of the
  view mode to \<open>newView\<close> is followed by exactly one URL mutation, or by none when the URL
  already decodes to \<open>newView\<close>.
\<close>

theorem syncViewParam_mutations:
  "setSearchParams_calls (syncViewParam st) =
     setSearchParams_calls st @
       (if getActivityView (searchParams_get (searchParams st) VIEW_PARAM) = activityView st
        then [] else [encodeViewParam (activityView st) (searchParams st)]) \<and>
   searchParams (syncViewParam st) =
       (if getActivityView (searchParams_get (searchParams st) VIEW_PARAM) = activityView st
        then searchParams st else encodeViewParam (activityView st) (searchParams st)) \<and>
   length (setSearchParams_calls (syncViewParam (onViewChange (Some newView) st))) =
     length (setSearchParams_calls st) +
       (if getActivityView (searchParams_get (searchParams st) VIEW_PARAM) = newView
        then 0 else 1)"
  by (simp add: syncViewParam_def onViewChange_def Let_def)

text \<open>
  C10. The effect changes nothing but the \<open>useractivity\<close> pairs: the pairs under every
  other name are the same, in the same order, before and after it, also when it follows a
  change of the view mode; so \<^verbatim>\<open>getAll\<close> and \<^verbatim>\<open>get\<close> answer the same for every other name.
\<close>

theorem syncViewParam_frame:
  "filter (\<lambda>p. fst p \<noteq> VIEW_PARAM) (searchParams (syncViewParam st)) =
     filter (\<lambda>p. fst p \<noteq> VIEW_PARAM) (searchParams st) \<and>
   filter (\<lambda>p. fst p \<noteq> VIEW_PARAM) (searchParams (syncViewParam (onViewChange newView st))) =
     filter (\<lambda>p. fst p \<noteq> VIEW_PARAM) (searchParams st) \<and>
   (name \<noteq> VIEW_PARAM \<longrightarrow>
      searchParams_getAll (searchParams (syncViewParam (onViewChange newView st))) name =
        searchParams_getAll (searchParams st) name \<and>
      searchParams_get (searchParams (syncViewParam (onViewChange newView st))) name =
        searchParams_get (searchParams st) name)"
proof -
  have frame: "filter (\<lambda>p. fst p \<noteq> VIEW_PARAM) (searchParams (syncViewParam s)) =
     filter (\<lambda>p. fst p \<noteq> VIEW_PARAM) (searchParams s)" for s
    by (simp add: syncViewParam_def Let_def others_encodeViewParam)
  have same: "searchParams (onViewChange newView st) = searchParams st"
    by (simp add: onViewChange_def split: option.splits)
  have frame': "filter (\<lambda>p. fst p \<noteq> VIEW_PARAM)
       (searchParams (syncViewParam (onViewChange newView st))) =
     filter (\<lambda>p. fst p \<noteq> VIEW_PARAM) (searchParams st)"
    using frame [of "onViewChange newView st"] same by simp
  have "searchParams_getAll (searchParams (syncViewParam (onViewChange newView st))) name =
        searchParams_getAll (searchParams st) name" if "name \<noteq> VIEW_PARAM"
    using getAll_others [OF that] frame' by metis
  moreover have "searchParams_get (searchParams (syncViewParam (onViewChange newView st))) name =
        searchParams_get (searchParams st) name" if "name \<noteq> VIEW_PARAM"
    using get_others [OF that] frame' by metis
  ultimately show ?thesis
    using frame frame' by blast
qed

theorem syncViewParam_frame_witness:
  "''page'' \<noteq> VIEW_PARAM \<and>
   searchParams (syncViewParam (onViewChange (Some ActivityView_System)
      (Activity_mount [(''page'', ''2''), (''useractivity'', ''yes''), (''page'', ''3''),
                       (''useractivity'', ''0'')]))) =
     [(''page'', ''2''), (''useractivity'', ''false''), (''page'', ''3'')] \<and>
   searchParams_getAll (searchParams (syncViewParam (onViewChange (Some ActivityView_System)
      (Activity_mount [(''page'', ''2''), (''useractivity'', ''yes''), (''page'', ''3''),
                       (''useractivity'', ''0'')])))) ''page'' = [''2'', ''3'']"
  using syncViewParam_frame [of
      "Activity_mount [(''page'', ''2''), (''useractivity'', ''yes''), (''page'', ''3''),
                       (''useractivity'', ''0'')]"
      "Some ActivityView_System" "''page''"]
  by (simp add: Activity_mount_def onViewChange_def syncViewParam_def encodeViewParam_def
      searchParams_get_def searchParams_getAll_def searchParams_delete_def
      getActivityView_def toBoolean_def toLowerCase_def string_of_boolean_def VIEW_PARAM_def
      Let_def)

subsection \<open>Pagination and fetch parameters\<close>

text \<open>
  C4. The fetch parameters are \<open>startIndex = page * pageSize\<close>, \<open>limit = pageSize\<close>, and
  \<open>hasUserId\<close> undefined for All, true for User and false for System. On page 2 with
  25 rows a page in the User view they are \<open>{startIndex: 50, limit: 25, hasUserId: true}\<close>.
\<close>

theorem activityParams_fields:
  "startIndex (activityParams view pm) = page pm * pageSize pm \<and>
   limit (activityParams view pm) = pageSize pm \<and>
   hasUserId (activityParams view pm) =
     (case view of
        ActivityView_All \<Rightarrow> None
      | ActivityView_User \<Rightarrow> Some True
      | ActivityView_System \<Rightarrow> Some False) \<and>
   activityParams ActivityView_User \<lparr>page = 2, pageSize = 25\<rparr> =
     \<lparr>startIndex = 50, limit = 25, hasUserId = Some True\<rparr>"
  by (cases view) (simp_all add: activityParams_def)

text \<open>
  C7. The handler of the view toggle changes the view mode and nothing else: the pagination
  model, and with it the page index, is the same after the handler, and still the same
  after the URL effect that follows. The next fetch therefore starts at the old page's
  offset; the page index is not set back to 0.
\<close>

theorem onViewChange_keeps_pagination:
  "paginationModel (onViewChange newView st) = paginationModel st \<and>
   paginationModel (syncViewParam (onViewChange newView st)) = paginationModel st \<and>
   onViewChange newView st =
     st\<lparr>activityView := (case newView of None \<Rightarrow> activityView st | Some v \<Rightarrow> v)\<rparr> \<and>
   startIndex (activityParams v (paginationModel (onViewChange (Some v) st))) =
     page (paginationModel st) * pageSize (paginationModel st)"
  by (simp add: onViewChange_def syncViewParam_def activityParams_def Let_def
      split: option.splits)

subsection \<open>Columns and rows\<close>

text \<open>
  C5. The column list has a column with the field \<open>User\<close> if and only if the view mode is
  not System.
\<close>

theorem columns_user_column:
  "(\<exists>c \<in> set (columns view). field c = ''User'') \<longleftrightarrow> view \<noteq> ActivityView_System"
  by (simp add: columns_def userColDef_def)

text \<open>
  C6. A row with no item identifier, or with the empty string as its item identifier, gets
  no action. Every other row gets exactly one: the media-details link to
  \<open>/details?id=\<close> followed by the item identifier. So the list of actions is non-empty
  if and only if the row carries a non-empty item identifier.
\<close>

theorem getActions_media_details:
  "(case entry_ItemId row of
      None \<Rightarrow> getActions row = []
    | Some i \<Rightarrow>
        getActions row =
          (if i = [] then []
           else [\<lparr>link_label = ''LabelMediaDetails'', link_title = ''LabelMediaDetails'',
                  link_to = ''/details?id='' @ i\<rparr>])) \<and>
   (getActions row \<noteq> [] \<longleftrightarrow> (\<exists>i. entry_ItemId row = Some i \<and> i \<noteq> []))"
  by (simp add: getActions_def truthy_def js_ToString_def split: option.splits)

text \<open>
  C9. The row key of an entry with the identifier \<open>i\<close> is \<open>i\<close> (also when \<open>i\<close> is 0), and
  the row key of an entry without identifier is \<open>-1\<close>.
\<close>

theorem getRowId_sentinel:
  "getRowId (row\<lparr>entry_Id := Some i\<rparr>) = i \<and> getRowId (row\<lparr>entry_Id := None\<rparr>) = - 1"
  by (simp add: getRowId_def)

subsection \<open>The user directory\<close>

lemma find_found: "find P xs \<noteq> None \<longleftrightarrow> (\<exists>x \<in> set xs. P x)"
  by (induction xs) auto

lemma users_step_apply:
  "users_step acc u k = (if user_Id u = Some k \<and> k \<noteq> [] then Some u else acc k)"
  by (cases "user_Id u") (auto simp: users_step_def truthy_def Let_def)

text \<open>
  The fold, key by key: the last user of the sequence with the key as identifier, and
  the starting object's entry when there is none. Induction from the right, since
  \<^verbatim>\<open>reduce\<close> applies the callback to the last element last.
\<close>

lemma foldl_users_step:
  "foldl users_step m us k =
     (case find (\<lambda>u. user_Id u = Some k \<and> k \<noteq> []) (rev us) of
        None \<Rightarrow> m k
      | Some u \<Rightarrow> Some u)"
proof (induction us rule: rev_induct)
  case Nil
  show ?case by simp
next
  case (snoc x xs)
  have "foldl users_step m (xs @ [x]) k = users_step (foldl users_step m xs) x k"
    by simp
  also have "\<dots> = (if user_Id x = Some k \<and> k \<noteq> [] then Some x
                     else foldl users_step m xs k)"
    by (rule users_step_apply)
  finally show ?case
    by (simp add: snoc.IH)
qed

lemma users_lookup:
  "users (Some us) k = (if k = [] then None else find (\<lambda>u. user_Id u = Some k) (rev us))"
proof (cases "k = []")
  case True
  have "find (\<lambda>u::UserDto. False) (rev us) = None"
    by (simp add: find_None_iff)
  with True show ?thesis
    by (simp add: users_def foldl_users_step)
next
  case False
  then show ?thesis
    by (cases "find (\<lambda>u. user_Id u = Some k) (rev us)")
       (simp_all add: users_def foldl_users_step)
qed

lemma users_dom:
  "dom (users (Some us)) = {k. k \<noteq> [] \<and> (\<exists>u \<in> set us. user_Id u = Some k)}"
proof (rule set_eqI)
  fix k
  have "k \<in> dom (users (Some us)) \<longleftrightarrow> users (Some us) k \<noteq> None"
    by (simp only: domIff)
  also have "\<dots> \<longleftrightarrow> k \<noteq> [] \<and> find (\<lambda>u. user_Id u = Some k) (rev us) \<noteq> None"
    by (simp add: users_lookup)
  also have "\<dots> \<longleftrightarrow> k \<noteq> [] \<and> (\<exists>u \<in> set us. user_Id u = Some k)"
    by (simp only: find_found set_rev)
  finally show "k \<in> dom (users (Some us)) \<longleftrightarrow>
      k \<in> {k. k \<noteq> [] \<and> (\<exists>u \<in> set us. user_Id u = Some k)}"
    by simp
qed

lemma users_empty_key: "users usersData [] = None"
  by (cases usersData) (simp_all add: users_lookup, simp add: users_def)

text \<open>
  C8. The keys of the user directory are exactly the non-empty identifiers of the fetched
  users: a user whose identifier is absent or the empty string (which JavaScript treats as
  no value) contributes no entry, and before the users arrive the directory is empty. The
  entry under a key is the last fetched user with that identifier. For a row whose user
  identifier is not a key of the directory, and for every row whose user identifier is the
  empty string, the column value and the cell title are undefined; both are total
  functions, so nothing is raised.
\<close>

theorem users_directory:
  "users (Some us) k =
     (if k = [] then None else find (\<lambda>u. user_Id u = Some k) (rev us)) \<and>
   users None k = None \<and>
   dom (users (Some us)) = {k. k \<noteq> [] \<and> (\<exists>u \<in> set us. user_Id u = Some k)} \<and>
   (js_ToString (entry_UserId row) \<notin> dom (users usersData) \<longrightarrow>
      User_valueGetter (users usersData) row = None \<and>
      cell_title (User_renderCell (users usersData) row) = None) \<and>
   User_valueGetter (users usersData) (row\<lparr>entry_UserId := Some []\<rparr>) = None \<and>
   cell_title (User_renderCell (users usersData) (row\<lparr>entry_UserId := Some []\<rparr>)) = None"
proof -
  have miss: "User_valueGetter (users usersData) row = None \<and>
      cell_title (User_renderCell (users usersData) row) = None"
    if "users usersData (js_ToString (entry_UserId row)) = None"
    using that by (simp add: User_valueGetter_def User_renderCell_def)
  have unknown: "js_ToString (entry_UserId row) \<notin> dom (users usersData) \<longrightarrow>
      User_valueGetter (users usersData) row = None \<and>
      cell_title (User_renderCell (users usersData) row) = None"
    using miss by (simp add: domIff)
  have blank:
    "User_valueGetter (users usersData) (row\<lparr>entry_UserId := Some []\<rparr>) = None \<and>
     cell_title (User_renderCell (users usersData) (row\<lparr>entry_UserId := Some []\<rparr>)) = None"
    using users_empty_key [of usersData]
    by (simp add: User_valueGetter_def User_renderCell_def js_ToString_def)
  have "users None k = None"
    by (simp add: users_def)
  with users_lookup [of us k] users_dom [of us] unknown blank show ?thesis
    by blast
qed

theorem users_directory_witness:
  "js_ToString (entry_UserId
      \<lparr>entry_Id = Some 1, entry_Name = None, entry_Overview = None,
       entry_ShortOverview = None, entry_Type = None, entry_ItemId = Some ''m1'',
       entry_Date = Some ''2024-01-05T10:00:00Z'', entry_UserId = Some ''u2'',
       entry_Severity = None\<rparr>)
     \<notin> dom (users (Some [\<lparr>user_Id = Some ''u1'', user_Name = Some ''Alice''\<rparr>,
                            \<lparr>user_Id = None, user_Name = Some ''Bob''\<rparr>,
                            \<lparr>user_Id = Some [], user_Name = Some ''Carol''\<rparr>])) \<and>
   User_valueGetter
     (users (Some [\<lparr>user_Id = Some ''u1'', user_Name = Some ''Alice''\<rparr>,
                   \<lparr>user_Id = None, user_Name = Some ''Bob''\<rparr>,
                   \<lparr>user_Id = Some [], user_Name = Some ''Carol''\<rparr>]))
     \<lparr>entry_Id = Some 1, entry_Name = None, entry_Overview = None,
      entry_ShortOverview = None, entry_Type = None, entry_ItemId = Some ''m1'',
      entry_Date = Some ''2024-01-05T10:00:00Z'', entry_UserId = Some ''u2'',
      entry_Severity = None\<rparr> = None \<and>
   users (Some [\<lparr>user_Id = Some ''u1'', user_Name = Some ''Alice''\<rparr>,
                \<lparr>user_Id = None, user_Name = Some ''Bob''\<rparr>,
                \<lparr>user_Id = Some [], user_Name = Some ''Carol''\<rparr>]) ''u1'' =
     Some \<lparr>user_Id = Some ''u1'', user_Name = Some ''Alice''\<rparr>"
  using users_directory [of
      "[\<lparr>user_Id = Some ''u1'', user_Name = Some ''Alice''\<rparr>,
        \<lparr>user_Id = None, user_Name = Some ''Bob''\<rparr>,
        \<lparr>user_Id = Some [], user_Name = Some ''Carol''\<rparr>]"
      "''u1''"
      "\<lparr>entry_Id = Some 1, entry_Name = None, entry_Overview = None,
        entry_ShortOverview = None, entry_Type = None, entry_ItemId = Some ''m1'',
        entry_Date = Some ''2024-01-05T10:00:00Z'', entry_UserId = Some ''u2'',
        entry_Severity = None\<rparr>"
      "Some [\<lparr>user_Id = Some ''u1'', user_Name = Some ''Alice''\<rparr>,
             \<lparr>user_Id = None, user_Name = Some ''Bob''\<rparr>,
             \<lparr>user_Id = Some [], user_Name = Some ''Carol''\<rparr>]"]
  by (simp add: js_ToString_def)

subsection \<open>A page of one row\<close>

text \<open>
  The entry \<open>{Id: 1, Date: "2024-01-05T10:00:00Z", UserId: "u1", ItemId: "m1"}\<close> with the
  users \<open>[{Id: "u1", Name: "Alice"}]\<close> in the All view: the user column is there and
  resolves to Alice, and the row has exactly one action, the media-details link.
\<close>

lemma one_row_example:
  "map field (columns ActivityView_All) =
     [''Date'', ''Time'', ''Severity'', ''User'', ''Name'', ''Overview'', ''Type'', ''actions''] \<and>
   User_valueGetter (users (Some [\<lparr>user_Id = Some ''u1'', user_Name = Some ''Alice''\<rparr>]))
     \<lparr>entry_Id = Some 1, entry_Name = None, entry_Overview = None,
      entry_ShortOverview = None, entry_Type = None, entry_ItemId = Some ''m1'',
      entry_Date = Some ''2024-01-05T10:00:00Z'', entry_UserId = Some ''u1'',
      entry_Severity = None\<rparr> = Some ''Alice'' \<and>
   map link_to (getActions
     \<lparr>entry_Id = Some 1, entry_Name = None, entry_Overview = None,
      entry_ShortOverview = None, entry_Type = None, entry_ItemId = Some ''m1'',
      entry_Date = Some ''2024-01-05T10:00:00Z'', entry_UserId = Some ''u1'',
      entry_Severity = None\<rparr>) = [''/details?id=m1'']"
  by (simp add: columns_def userColDef_def User_valueGetter_def users_def users_step_def
      truthy_def js_ToString_def getActions_def Let_def)

end
